theory Spec2Isabelle
  imports Main
begin

section \<open>ViharaYatra server: authentication and group messaging\<close>

text \<open>
  A shallow embedding of \<^verbatim>\<open>src/server/index.js\<close>. Every route handler is a function
  of the store state, the request and the values the handler reads from its environment
  (the clock, the salt and the document id drawn by the libraries). A handler returns the
  response it writes, and, where it writes to the store or emits on the socket server,
  the new store and the emitted events.

  The three libraries the file calls are not part of the repository:
  \<^item> \<^verbatim>\<open>bcryptjs\<close> and the ObjectId cast of the database driver are taken as
    parameters (record \<open>libs\<close>), and so is \<^verbatim>\<open>String.prototype.toLowerCase\<close> of the
    runtime, whose Unicode case tables are not part of the repository either;
  \<^item> \<^verbatim>\<open>jsonwebtoken\<close> is modelled from the specification (section 4.3), over a
    serialisation of tokens that is a parameter too;
  \<^item> the \<^verbatim>\<open>mongoose\<close> collections are lists of documents in insertion order.
  Request body fields are \<open>string option\<close>: \<open>None\<close> is a field the body does not
  have (\<^verbatim>\<open>undefined\<close>). Faults of the database connection are not modelled.
\<close>

subsection \<open>JavaScript strings\<close>

text \<open>
  A string is the list of its bytes in UTF-8, in which the space is one byte that no
  other character contains.

  \<^verbatim>\<open>s.split(" ")\<close>: the pieces of \<open>s\<close> between single spaces. The result is never
  empty: \<^verbatim>\<open>"".split(" ")\<close> is \<^verbatim>\<open>[""]\<close>.
\<close>

fun split_sp :: "string \<Rightarrow> string list" where
  "split_sp [] = [[]]"
| "split_sp (c # cs) =
     (if c = CHR '' '' then [] # split_sp cs
      else (c # hd (split_sp cs)) # tl (split_sp cs))"

text \<open>\<^verbatim>\<open>xs[i]\<close> on an array: \<^verbatim>\<open>undefined\<close> out of range.\<close>

definition index :: "'a list \<Rightarrow> nat \<Rightarrow> 'a option" where
  "index xs i = (if i < length xs then Some (xs ! i) else None)"

subsection \<open>Documents, store and libraries\<close>

text \<open>The schemas of the two collections (lines 22-42). An ObjectId is its hex string.\<close>

type_synonym objectid = string

record user =
  user_id :: objectid
  user_name :: string
  user_email :: string
  user_password :: string

text \<open>
  No field of a group or of a message is \<^verbatim>\<open>required\<close>: a name or a text that the
  request body does not have is stored as missing.
\<close>

record message =
  sender :: string
  msg_text :: "string option"
  timestamp :: nat

record group =
  group_id :: objectid
  group_name :: "string option"
  members :: "string list"
  messages :: "message list"

record store =
  users :: "user list"
  groups :: "group list"

text \<open>
  The payload of a token, and the token itself: the payload together with the secret
  its signature was computed with.
\<close>

record claims =
  userId :: objectid
  email :: string
  iat :: nat
  exp :: nat

record jwt =
  payload :: claims
  signed_with :: string

text \<open>
  The functions that are parameters of the model:
  \<^item> \<open>toLowerCase s\<close> is \<^verbatim>\<open>s.toLowerCase()\<close>, the lowercase form of a string under
    the case mapping of the runtime; nothing is assumed of it;
  \<^item> \<open>hashpw salt rounds s\<close> is the digest \<^verbatim>\<open>bcrypt.hash(s, rounds)\<close> resolves to when
    the library draws \<open>salt\<close>, and \<open>checkpw s digest\<close> is what
    \<^verbatim>\<open>bcrypt.compare(s, digest)\<close> resolves to;
  \<^item> \<open>encode\<close> and \<open>decode\<close> are the compact serialisation of a signed token and its
    parser;
  \<^item> \<open>castObjectId\<close> is the driver's cast of a string to an ObjectId, \<open>None\<close> where
    the driver raises a CastError.
\<close>

record libs =
  toLowerCase :: "string \<Rightarrow> string"
  hashpw :: "string \<Rightarrow> nat \<Rightarrow> string \<Rightarrow> string"
  checkpw :: "string \<Rightarrow> string \<Rightarrow> bool"
  encode :: "jwt \<Rightarrow> string"
  decode :: "string \<Rightarrow> jwt option"
  castObjectId :: "string \<Rightarrow> objectid option"

datatype exn =
  TypeError | IllegalArguments | ValidationError | DuplicateKeyError | CastError

datatype jwt_error = JsonWebTokenError | TokenExpiredError

subsection \<open>bcryptjs\<close>

text \<open>
  \<^verbatim>\<open>bcrypt.hash(s, 10)\<close> and \<^verbatim>\<open>bcrypt.compare(s, hash)\<close> reject with
  "Illegal arguments" when \<open>s\<close> is not a string.
\<close>

definition bcrypt_hash :: "libs \<Rightarrow> string \<Rightarrow> string option \<Rightarrow> nat \<Rightarrow> exn + string" where
  "bcrypt_hash l salt s rounds =
     (case s of None \<Rightarrow> Inl IllegalArguments | Some p \<Rightarrow> Inr (hashpw l salt rounds p))"

definition bcrypt_compare :: "libs \<Rightarrow> string option \<Rightarrow> string \<Rightarrow> exn + bool" where
  "bcrypt_compare l s digest =
     (case s of None \<Rightarrow> Inl IllegalArguments | Some p \<Rightarrow> Inr (checkpw l p digest))"

subsection \<open>jsonwebtoken\<close>

text \<open>
  Modelled from the spec: the token issuer and verifier (the \<^verbatim>\<open>jsonwebtoken\<close>
  library, which is not under src/). Section 4.3: a token is issued for the claims
  \<open>{userId, email}\<close>, signed with the secret, and encodes the time of issuance and the
  expiry, \<open>expiresIn\<close> seconds later; verification fails on a token that does not parse, on
  a signature made with another secret, and on an expired token. The clock \<open>now\<close> is in
  milliseconds, as \<^verbatim>\<open>Date.now()\<close>; \<open>iat\<close> and \<open>exp\<close> are in seconds.
\<close>

definition new_token :: "nat \<Rightarrow> objectid \<Rightarrow> string \<Rightarrow> string \<Rightarrow> nat \<Rightarrow> jwt" where
  "new_token now uid em secret expiresIn =
     \<lparr>payload = \<lparr>userId = uid, email = em, iat = now div 1000,
                  exp = now div 1000 + expiresIn\<rparr>,
      signed_with = secret\<rparr>"

definition jwt_sign :: "libs \<Rightarrow> nat \<Rightarrow> objectid \<Rightarrow> string \<Rightarrow> string \<Rightarrow> nat \<Rightarrow> string" where
  "jwt_sign l now uid em secret expiresIn = encode l (new_token now uid em secret expiresIn)"

definition jwt_verify :: "libs \<Rightarrow> nat \<Rightarrow> string \<Rightarrow> string \<Rightarrow> jwt_error + claims" where
  "jwt_verify l now token secret =
     (case decode l token of
        None \<Rightarrow> Inl JsonWebTokenError
      | Some t \<Rightarrow>
          if signed_with t \<noteq> secret then Inl JsonWebTokenError
          else if exp (payload t) \<le> now div 1000 then Inl TokenExpiredError
          else Inr (payload t))"

subsection \<open>Responses\<close>

datatype body =
  ErrorBody string
| MessageBody string
| LoginBody string string
| UserBody "(string \<times> string) list"
| GroupBody string group
| GroupsBody "group list"
| SentBody string message

text \<open>
  What a handler does with a request: it writes a response, or an exception leaves the
  handler and no response is written by it.
\<close>

datatype outcome = Respond nat body | Unhandled exn

text \<open>What a middleware does: it writes a response, or calls \<^verbatim>\<open>next()\<close> with \<^verbatim>\<open>req.user\<close> set.\<close>

datatype middleware = Reject nat body | Next claims

subsection \<open>Middleware: verify the token (lines 45-55)\<close>

definition authenticateUser :: "libs \<Rightarrow> string \<Rightarrow> nat \<Rightarrow> string option \<Rightarrow> middleware" where
  "authenticateUser l secret now authorization =
     (let token = (case authorization of None \<Rightarrow> None | Some h \<Rightarrow> index (split_sp h) 1) in
      case token of
        None \<Rightarrow> Reject 401 (ErrorBody ''Unauthorized. No token provided.'')
      | Some t \<Rightarrow>
          if t = [] then Reject 401 (ErrorBody ''Unauthorized. No token provided.'')
          else (case jwt_verify l now t secret of
                  Inl err \<Rightarrow> Reject 403 (ErrorBody ''Invalid or expired token'')
                | Inr decoded \<Rightarrow> Next decoded))"

subsection \<open>The collections\<close>

text \<open>\<^verbatim>\<open>User.findOne({ email })\<close>: the first user with this email, or \<^verbatim>\<open>null\<close>.\<close>

definition User_findOne :: "store \<Rightarrow> string \<Rightarrow> user option" where
  "User_findOne st em = find (\<lambda>u. user_email u = em) (users st)"

text \<open>
  \<^verbatim>\<open>newUser.save()\<close>: the validators of the schema (\<^verbatim>\<open>required: true\<close> on the three
  fields, which a missing value and the empty string fail), then the insertion, which
  the unique index on \<^verbatim>\<open>email\<close> refuses for an email the collection has.
\<close>

definition User_save ::
  "store \<Rightarrow> objectid \<Rightarrow> string option \<Rightarrow> string \<Rightarrow> string \<Rightarrow> exn + store" where
  "User_save st oid nm em pw =
     (case nm of
        None \<Rightarrow> Inl ValidationError
      | Some n \<Rightarrow>
          if n = [] \<or> em = [] \<or> pw = [] then Inl ValidationError
          else if list_ex (\<lambda>u. user_email u = em) (users st) then Inl DuplicateKeyError
          else Inr (st\<lparr>users := users st @
                 [\<lparr>user_id = oid, user_name = n, user_email = em, user_password = pw\<rparr>]\<rparr>))"

text \<open>
  \<^verbatim>\<open>Model.findById(id)\<close> casts \<open>id\<close> to an ObjectId, and rejects with a CastError when
  it is not one; then the document with this \<^verbatim>\<open>_id\<close>, or \<^verbatim>\<open>null\<close>.
\<close>

definition User_findById :: "libs \<Rightarrow> store \<Rightarrow> string \<Rightarrow> exn + user option" where
  "User_findById l st ident =
     (case castObjectId l ident of
        None \<Rightarrow> Inl CastError
      | Some oid \<Rightarrow> Inr (find (\<lambda>u. user_id u = oid) (users st)))"

definition Group_findById :: "libs \<Rightarrow> store \<Rightarrow> string \<Rightarrow> exn + group option" where
  "Group_findById l st ident =
     (case castObjectId l ident of
        None \<Rightarrow> Inl CastError
      | Some oid \<Rightarrow> Inr (find (\<lambda>g. group_id g = oid) (groups st)))"

text \<open>\<^verbatim>\<open>Group.find({ members: email })\<close>: the groups whose array \<open>members\<close> has \<open>email\<close>.\<close>

definition Group_find :: "store \<Rightarrow> string \<Rightarrow> group list" where
  "Group_find st em = filter (\<lambda>g. em \<in> set (members g)) (groups st)"

text \<open>\<^verbatim>\<open>group.save()\<close> on a new document, and on a document that was loaded and changed.\<close>

definition Group_insert :: "store \<Rightarrow> group \<Rightarrow> store" where
  "Group_insert st g = st\<lparr>groups := groups st @ [g]\<rparr>"

fun replace_doc :: "group \<Rightarrow> group list \<Rightarrow> group list" where
  "replace_doc g [] = []"
| "replace_doc g (x # xs) =
     (if group_id x = group_id g then g # xs else x # replace_doc g xs)"

definition Group_update :: "store \<Rightarrow> group \<Rightarrow> store" where
  "Group_update st g = st\<lparr>groups := replace_doc g (groups st)\<rparr>"

text \<open>
  The JSON of a user document (without the version key that the library adds), and
  \<^verbatim>\<open>.select("-password")\<close>, which leaves a field out of it.
\<close>

definition toJSON :: "user \<Rightarrow> (string \<times> string) list" where
  "toJSON u = [(''_id'', user_id u), (''name'', user_name u), (''email'', user_email u),
               (''password'', user_password u)]"

definition select_minus :: "string \<Rightarrow> (string \<times> string) list \<Rightarrow> (string \<times> string) list" where
  "select_minus field doc = filter (\<lambda>kv. fst kv \<noteq> field) doc"

subsection \<open>POST /api/auth/register (lines 58-81)\<close>

text \<open>The body of the \<^verbatim>\<open>try\<close> block: \<open>Inl\<close> is an exception raised in it.\<close>

definition register_try ::
  "libs \<Rightarrow> store \<Rightarrow> string \<Rightarrow> objectid \<Rightarrow> string option \<Rightarrow> string option \<Rightarrow> string option
     \<Rightarrow> exn + (outcome \<times> store)" where
  "register_try l st salt oid name email_field password =
     (case email_field of
        None \<Rightarrow> Inl TypeError
      | Some e \<Rightarrow>
          (let em = toLowerCase l e in
           (case User_findOne st em of
              Some existingUser \<Rightarrow> Inr (Respond 400 (ErrorBody ''Email already in use''), st)
            | None \<Rightarrow>
                (case bcrypt_hash l salt password 10 of
                   Inl x \<Rightarrow> Inl x
                 | Inr hashedPassword \<Rightarrow>
                     (case User_save st oid name em hashedPassword of
                        Inl x \<Rightarrow> Inl x
                      | Inr st' \<Rightarrow>
                          Inr (Respond 201 (MessageBody ''User registered successfully!''),
                               st'))))))"

definition register ::
  "libs \<Rightarrow> store \<Rightarrow> string \<Rightarrow> objectid \<Rightarrow> string option \<Rightarrow> string option \<Rightarrow> string option
     \<Rightarrow> outcome \<times> store" where
  "register l st salt oid name email_field password =
     (case register_try l st salt oid name email_field password of
        Inl error \<Rightarrow> (Respond 500 (ErrorBody ''Error registering user''), st)
      | Inr r \<Rightarrow> r)"

subsection \<open>POST /api/auth/login (lines 84-115)\<close>

definition login_try ::
  "libs \<Rightarrow> string \<Rightarrow> store \<Rightarrow> nat \<Rightarrow> string \<Rightarrow> string option \<Rightarrow> exn + outcome" where
  "login_try l secret st now em password =
     (case User_findOne st em of
        None \<Rightarrow> Inr (Respond 400 (ErrorBody ''User not found''))
      | Some user \<Rightarrow>
          (case bcrypt_compare l password (user_password user) of
             Inl x \<Rightarrow> Inl x
           | Inr isMatch \<Rightarrow>
               if \<not> isMatch then Inr (Respond 400 (ErrorBody ''Invalid password''))
               else Inr (Respond 200 (LoginBody ''Login successful''
                      (jwt_sign l now (user_id user) (user_email user) secret (60 * 60))))))"

text \<open>
  Line 86 lowercases the email before the \<^verbatim>\<open>try\<close> block is entered: on a body with no
  email the TypeError leaves the handler.
\<close>

definition login :: "libs \<Rightarrow> string \<Rightarrow> store \<Rightarrow> nat \<Rightarrow> string option \<Rightarrow> string option \<Rightarrow> outcome" where
  "login l secret st now email_field password =
     (case email_field of
        None \<Rightarrow> Unhandled TypeError
      | Some e \<Rightarrow>
          (case login_try l secret st now (toLowerCase l e) password of
             Inl error \<Rightarrow> Respond 500 (ErrorBody ''Server error during login'')
           | Inr r \<Rightarrow> r))"

subsection \<open>GET /api/auth/user (lines 118-128)\<close>

definition auth_user :: "libs \<Rightarrow> store \<Rightarrow> claims \<Rightarrow> outcome" where
  "auth_user l st req_user =
     (case User_findById l st (userId req_user) of
        Inl error \<Rightarrow> Respond 500 (ErrorBody ''Server error'')
      | Inr None \<Rightarrow> Respond 404 (ErrorBody ''User not found'')
      | Inr (Some u) \<Rightarrow> Respond 200 (UserBody (select_minus ''password'' (toJSON u))))"

definition get_auth_user :: "libs \<Rightarrow> string \<Rightarrow> store \<Rightarrow> nat \<Rightarrow> string option \<Rightarrow> outcome" where
  "get_auth_user l secret st now authorization =
     (case authenticateUser l secret now authorization of
        Reject status b \<Rightarrow> Respond status b
      | Next req_user \<Rightarrow> auth_user l st req_user)"

subsection \<open>POST /api/groups (lines 131-140)\<close>

text \<open>
  Nothing in the \<^verbatim>\<open>try\<close> block of this handler, or of the next one, raises in the
  model (no field of a group is validated), so their \<^verbatim>\<open>catch\<close> blocks are not reached.
\<close>

definition create_group :: "store \<Rightarrow> objectid \<Rightarrow> claims \<Rightarrow> string option \<Rightarrow> outcome \<times> store" where
  "create_group st oid req_user name =
     (let g = \<lparr>group_id = oid, group_name = name, members = [email req_user], messages = []\<rparr>
      in (Respond 201 (GroupBody ''Group created successfully!'' g), Group_insert st g))"

definition post_groups ::
  "libs \<Rightarrow> string \<Rightarrow> store \<Rightarrow> nat \<Rightarrow> objectid \<Rightarrow> string option \<Rightarrow> string option
     \<Rightarrow> outcome \<times> store" where
  "post_groups l secret st now oid authorization name =
     (case authenticateUser l secret now authorization of
        Reject status b \<Rightarrow> (Respond status b, st)
      | Next req_user \<Rightarrow> create_group st oid req_user name)"

subsection \<open>GET /api/groups (lines 143-150)\<close>

definition list_groups :: "store \<Rightarrow> claims \<Rightarrow> outcome" where
  "list_groups st req_user = Respond 200 (GroupsBody (Group_find st (email req_user)))"

definition get_groups :: "libs \<Rightarrow> string \<Rightarrow> store \<Rightarrow> nat \<Rightarrow> string option \<Rightarrow> outcome" where
  "get_groups l secret st now authorization =
     (case authenticateUser l secret now authorization of
        Reject status b \<Rightarrow> Respond status b
      | Next req_user \<Rightarrow> list_groups st req_user)"

subsection \<open>POST /api/groups/:id/message (lines 153-169)\<close>

text \<open>An event emitted to a room of the socket server: \<^verbatim>\<open>io.to(room).emit(event, data)\<close>.\<close>

record emit =
  room :: string
  event :: string
  data :: message

definition send_message ::
  "libs \<Rightarrow> store \<Rightarrow> nat \<Rightarrow> claims \<Rightarrow> string \<Rightarrow> string option \<Rightarrow> outcome \<times> store \<times> emit list" where
  "send_message l st now req_user ident txt =
     (case Group_findById l st ident of
        Inl error \<Rightarrow> (Respond 500 (ErrorBody ''Error sending message''), st, [])
      | Inr None \<Rightarrow> (Respond 404 (ErrorBody ''Group not found''), st, [])
      | Inr (Some g) \<Rightarrow>
          (let m = \<lparr>sender = email req_user, msg_text = txt, timestamp = now\<rparr>;
               g' = g\<lparr>messages := messages g @ [m]\<rparr>
           in (Respond 200 (SentBody ''Message sent!'' m), Group_update st g',
               [\<lparr>room = group_id g', event = ''newMessage'', data = m\<rparr>])))"

definition post_groups_message ::
  "libs \<Rightarrow> string \<Rightarrow> store \<Rightarrow> nat \<Rightarrow> string option \<Rightarrow> string \<Rightarrow> string option
     \<Rightarrow> outcome \<times> store \<times> emit list" where
  "post_groups_message l secret st now authorization ident txt =
     (case authenticateUser l secret now authorization of
        Reject status b \<Rightarrow> (Respond status b, st, [])
      | Next req_user \<Rightarrow> send_message l st now req_user ident txt)"

subsection \<open>The serialisation of a token\<close>

text \<open>
  What the theorems on issued tokens ask of the serialisation, for the token \<open>t\<close> they
  are about: it parses back to \<open>t\<close>, and it is a non-empty string with no space in it
  (as the three dot-separated base64url parts of a token are).
\<close>

definition codec_ok :: "libs \<Rightarrow> jwt \<Rightarrow> bool" where
  "codec_ok l t =
     (decode l (encode l t) = Some t \<and> encode l t \<noteq> [] \<and> CHR '' '' \<notin> set (encode l t))"

subsection \<open>Sample values\<close>

text \<open>
  Stand-ins for the parameters, on which the theorems below are run:
  \<^item> the lowercase form of a string of ASCII characters, which is what
    \<^verbatim>\<open>String.prototype.toLowerCase\<close> gives on such a string (the runs use it on
    no other);
  \<^item> a digest that is the salt followed by the first 72 bytes of the password: bcrypt
    reads no more of it;
  \<^item> a codec that knows one token;
  \<^item> the cast of the 24-digit hex strings.
\<close>

definition ascii_lower_char :: "char \<Rightarrow> char" where
  "ascii_lower_char c =
     (let n = (of_char c :: nat) in if 65 \<le> n \<and> n \<le> 90 then char_of (n + 32) else c)"

definition ascii_lower :: "string \<Rightarrow> string" where
  "ascii_lower s = map ascii_lower_char s"

definition sample_token :: jwt where
  "sample_token =
     \<lparr>payload = \<lparr>userId = ''650000000000000000000001'', email = ''a@x.com'', iat = 1, exp = 3601\<rparr>,
      signed_with = ''s3cret''\<rparr>"

definition sample_libs :: libs where
  "sample_libs =
     \<lparr>toLowerCase = ascii_lower,
      hashpw = (\<lambda>salt rounds s. ''$2a$'' @ salt @ take 72 s),
      checkpw = (\<lambda>s digest. drop 8 digest = take 72 s),
      encode = (\<lambda>t. if t = sample_token then ''tok'' else ''other''),
      decode = (\<lambda>s. if s = ''tok'' then Some sample_token else None),
      castObjectId = (\<lambda>s. if length s = 24 \<and> list_all (\<lambda>c. c \<in> set ''0123456789abcdef'') s
                            then Some s else None)\<rparr>"


definition sample_store :: store where
  "sample_store =
     \<lparr>users = [\<lparr>user_id = ''650000000000000000000001'', user_name = ''A'',
                 user_email = ''a@x.com'', user_password = ''$2a$saltp''\<rparr>],
      groups = [\<lparr>group_id = ''650000000000000000000002'', group_name = Some ''Goa'',
                  members = [''b@x.com''], messages = []\<rparr>,
                \<lparr>group_id = ''650000000000000000000003'', group_name = None,
                  members = [''b@x.com'', ''a@x.com''], messages = []\<rparr>]\<rparr>"

definition empty_store :: store where
  "empty_store = \<lparr>users = [], groups = []\<rparr>"

section \<open>Properties\<close>

subsection \<open>Splitting the authorization header\<close>

lemma split_sp_not_Nil: "split_sp s \<noteq> []"
  by (induction s) auto

lemma split_sp_no_space: "CHR '' '' \<notin> set s \<Longrightarrow> split_sp s = [s]"
  by (induction s) auto

lemma split_sp_append:
  "CHR '' '' \<notin> set a \<Longrightarrow> split_sp (a @ CHR '' '' # b) = a # split_sp b"
  by (induction a) auto

lemma index_second_piece:
  assumes "CHR '' '' \<notin> set scheme" and "CHR '' '' \<notin> set tok"
    and "rest = [] \<or> hd rest = CHR '' ''"
  shows "index (split_sp (scheme @ CHR '' '' # tok @ rest)) 1 = Some tok"
proof -
  have "split_sp (tok @ rest) = tok # tl (split_sp (tok @ rest))"
  proof (cases rest)
    case Nil
    then show ?thesis using assms(2) by (simp add: split_sp_no_space)
  next
    case (Cons c r)
    with assms(3) have "rest = CHR '' '' # r" by simp
    then show ?thesis using assms(2) by (simp add: split_sp_append)
  qed
  then obtain ps where "split_sp (tok @ rest) = tok # ps" by blast
  then show ?thesis using assms(1) by (simp add: split_sp_append index_def)
qed


lemma authenticateUser_token:
  assumes "index (split_sp h) 1 = Some tok"
  shows "authenticateUser l secret now (Some h) =
     (if tok = [] then Reject 401 (ErrorBody ''Unauthorized. No token provided.'')
      else (case jwt_verify l now tok secret of
              Inl err \<Rightarrow> Reject 403 (ErrorBody ''Invalid or expired token'')
            | Inr decoded \<Rightarrow> Next decoded))"
  using assms by (simp add: authenticateUser_def)


lemma bearer_header:
  assumes "tok \<noteq> []" "CHR '' '' \<notin> set tok"
  shows "authenticateUser l secret now (Some (''Bearer '' @ tok)) =
     (case jwt_verify l now tok secret of
        Inl err \<Rightarrow> Reject 403 (ErrorBody ''Invalid or expired token'')
      | Inr decoded \<Rightarrow> Next decoded)"
proof -
  have "index (split_sp (''Bearer'' @ CHR '' '' # tok @ [])) 1 = Some tok"
    using assms(2) by (intro index_second_piece) simp_all
  then have "index (split_sp (''Bearer '' @ tok)) 1 = Some tok" by simp
  from authenticateUser_token [OF this] assms(1) show ?thesis by simp
qed

subsection \<open>Replacing a document\<close>

lemma replace_doc_split:
  "find (\<lambda>x. group_id x = group_id g') gs = Some g \<Longrightarrow>
   \<exists>pre post. gs = pre @ g # post \<and> replace_doc g' gs = pre @ g' # post
     \<and> (\<forall>x \<in> set pre. group_id x \<noteq> group_id g')"
proof (induction gs)
  case Nil
  then show ?case by simp
next
  case (Cons x xs)
  show ?case
  proof (cases "group_id x = group_id g'")
    case True
    with Cons.prems have "x = g" by simp
    with True show ?thesis by (intro exI [of _ "[]"] exI [of _ xs]) simp
  next
    case False
    with Cons.prems have "find (\<lambda>x. group_id x = group_id g') xs = Some g" by simp
    from Cons.IH [OF this] obtain pre post where
      "xs = pre @ g # post" "replace_doc g' xs = pre @ g' # post"
      "\<forall>x \<in> set pre. group_id x \<noteq> group_id g'" by blast
    with False show ?thesis
      by (intro exI [of _ "x # pre"] exI [of _ post]) simp
  qed
qed

subsection \<open>Finding a document\<close>

lemma find_append_new:
  "find P xs = None \<Longrightarrow> P x \<Longrightarrow> find P (xs @ x # ys) = Some x"
  by (induction xs) (auto split: if_splits)

lemma list_ex_find_None: "find P xs = None \<Longrightarrow> \<not> list_ex P xs"
  by (simp add: find_None_iff list_ex_iff)

subsection \<open>Registration and login\<close>

lemma register_cases:
  "register l st salt oid name em pw = (r, st') \<Longrightarrow>
   (st' = st \<and> (\<forall>b. r \<noteq> Respond 201 b))
   \<or> (\<exists>n e p. name = Some n \<and> em = Some e \<and> pw = Some p \<and> n \<noteq> []
        \<and> toLowerCase l e \<noteq> []
        \<and> User_findOne st (toLowerCase l e) = None
        \<and> r = Respond 201 (MessageBody ''User registered successfully!'')
        \<and> st' = st\<lparr>users := users st @
             [\<lparr>user_id = oid, user_name = n, user_email = toLowerCase l e,
               user_password = hashpw l salt 10 p\<rparr>]\<rparr>)"
  by (auto simp: register_def register_try_def bcrypt_hash_def User_save_def Let_def
      split: option.splits sum.splits if_splits)

lemma register_ok:
  assumes "User_findOne st (toLowerCase l e) = None" "n \<noteq> []" "toLowerCase l e \<noteq> []"
    "hashpw l salt 10 p \<noteq> []"
  shows "register l st salt oid (Some n) (Some e) (Some p) =
     (Respond 201 (MessageBody ''User registered successfully!''),
      st\<lparr>users := users st @
             [\<lparr>user_id = oid, user_name = n, user_email = toLowerCase l e,
               user_password = hashpw l salt 10 p\<rparr>]\<rparr>)"
  using assms list_ex_find_None [of "\<lambda>u. user_email u = toLowerCase l e" "users st"]
  by (simp add: register_def register_try_def bcrypt_hash_def User_save_def Let_def
      User_findOne_def)

lemma register_duplicate:
  assumes "User_findOne st (toLowerCase l e) = Some u"
  shows "register l st salt oid name (Some e) pw =
     (Respond 400 (ErrorBody ''Email already in use''), st)"
  using assms by (simp add: register_def register_try_def Let_def)

lemma registered_found_later:
  assumes "register l st salt oid name (Some e) pw = (Respond 201 b, st')"
    and "users st'' = users st' @ later"
    and "toLowerCase l e' = toLowerCase l e"
  shows "\<exists>n p. name = Some n \<and> pw = Some p \<and>
     User_findOne st'' (toLowerCase l e') =
       Some \<lparr>user_id = oid, user_name = n, user_email = toLowerCase l e,
             user_password = hashpw l salt 10 p\<rparr>"
proof -
  from register_cases [OF assms(1)] obtain n p where
    np: "name = Some n" "pw = Some p"
    and fresh: "User_findOne st (toLowerCase l e) = None"
    and st': "st' = st\<lparr>users := users st @
             [\<lparr>user_id = oid, user_name = n, user_email = toLowerCase l e,
               user_password = hashpw l salt 10 p\<rparr>]\<rparr>"
    by auto
  let ?u = "\<lparr>user_id = oid, user_name = n, user_email = toLowerCase l e,
               user_password = hashpw l salt 10 p\<rparr>"
  from st' assms(2) have "users st'' = users st @ ?u # later" by simp
  moreover from fresh have "find (\<lambda>u. user_email u = toLowerCase l e) (users st) = None"
    by (simp add: User_findOne_def)
  ultimately have "User_findOne st'' (toLowerCase l e) = Some ?u"
    by (simp add: User_findOne_def find_append_new)
  with np assms(3) show ?thesis by simp
qed

lemma verify_new_token:
  assumes "decode l tok = Some (new_token now uid em secret d)"
  shows "jwt_verify l now' tok secret =
     (if now' div 1000 < now div 1000 + d then Inr (payload (new_token now uid em secret d))
      else Inl TokenExpiredError)"
  using assms by (auto simp: jwt_verify_def new_token_def)


lemma login_issues:
  assumes "login l secret st now em pw = Respond status (LoginBody m tok)"
  shows "\<exists>u :: user. status = 200 \<and> tok = encode l (new_token now (user_id u) (user_email u) secret 3600)"
  using assms
  by (auto simp: login_def login_try_def bcrypt_compare_def jwt_sign_def
      split: option.splits sum.splits if_splits)

text \<open>
  The users collection only grows, and only by registration: the other two handlers
  that write to the store leave it as it is.
\<close>

lemma register_appends:
  "register l st salt oid name em pw = (r, st') \<Longrightarrow> \<exists>later. users st' = users st @ later"
  using register_cases [of l st salt oid name em pw r st'] by auto

lemma post_groups_users:
  "post_groups l secret st now oid authorization name = (r, st') \<Longrightarrow> users st' = users st"
  by (auto simp: post_groups_def create_group_def Group_insert_def Let_def
      split: middleware.splits)

lemma post_groups_message_users:
  "post_groups_message l secret st now authorization ident txt = (r, st', out) \<Longrightarrow>
   users st' = users st"
  by (auto simp: post_groups_message_def send_message_def Group_update_def Let_def
      split: middleware.splits sum.splits option.splits)

subsection \<open>The sample request\<close>

lemma sample_auth:
  "authenticateUser sample_libs ''s3cret'' 5000 (Some ''Bearer tok'') = Next (payload sample_token)"
  by (simp add: authenticateUser_def index_def jwt_verify_def sample_libs_def sample_token_def)

lemma sample_find_group:
  "Group_findById sample_libs sample_store ''650000000000000000000002'' =
     Inr (Some \<lparr>group_id = ''650000000000000000000002'', group_name = Some ''Goa'',
                  members = [''b@x.com''], messages = []\<rparr>)"
  by (simp add: Group_findById_def sample_libs_def sample_store_def)

lemma ascii_lower_samples:
  "ascii_lower ''A@x.com'' = ''a@x.com''"
  "ascii_lower ''a@X.COM'' = ''a@x.com''"
  "ascii_lower ''B@x.com'' = ''b@x.com''"
  by code_simp+

lemma sample_lower_A: "toLowerCase sample_libs ''A@x.com'' = ''a@x.com''"
  by (simp add: sample_libs_def ascii_lower_samples)

lemma sample_lower_a: "toLowerCase sample_libs ''a@X.COM'' = ''a@x.com''"
  by (simp add: sample_libs_def ascii_lower_samples)

lemma sample_lower_B: "toLowerCase sample_libs ''B@x.com'' = ''b@x.com''"
  by (simp add: sample_libs_def ascii_lower_samples)

lemma sample_register:
  "register sample_libs empty_store ''salt'' ''650000000000000000000001''
     (Some ''A'') (Some ''A@x.com'') (Some ''p'') =
   (Respond 201 (MessageBody ''User registered successfully!''),
    \<lparr>users = [\<lparr>user_id = ''650000000000000000000001'', user_name = ''A'',
                 user_email = ''a@x.com'', user_password = ''$2a$saltp''\<rparr>], groups = []\<rparr>)"
  by (simp add: register_def register_try_def User_findOne_def empty_store_def
      bcrypt_hash_def sample_libs_def ascii_lower_samples User_save_def)


lemma sample_new_token:
  "new_token 1500 ''650000000000000000000001'' ''a@x.com'' ''s3cret'' 3600 = sample_token"
  by (simp add: new_token_def sample_token_def)

lemma sample_login:
  "login sample_libs ''s3cret'' sample_store 1500 (Some ''a@X.COM'') (Some ''p'') =
     Respond 200 (LoginBody ''Login successful'' ''tok'')"
  by (simp add: login_def login_try_def sample_lower_a User_findOne_def sample_store_def bcrypt_compare_def
      jwt_sign_def sample_new_token) (simp add: sample_libs_def)

subsection \<open>The access-control middleware\<close>

text \<open>
  C1 (as amended). The middleware has three outcomes. It rejects with 401 when there is
  no token: the authorization header is absent, or it has no space (a bare token with no
  scheme word), or its second space-separated piece is empty. Otherwise that second
  piece is the token, whatever the first piece is (the scheme word is not compared with
  "Bearer"): the middleware rejects with 403 when verification of the token fails, and
  calls the handler with the decoded claims when it succeeds.
\<close>

theorem authenticateUser_states:
  "authenticateUser l secret now None =
     Reject 401 (ErrorBody ''Unauthorized. No token provided.'')
   \<and> (CHR '' '' \<notin> set h \<longrightarrow>
        authenticateUser l secret now (Some h) =
          Reject 401 (ErrorBody ''Unauthorized. No token provided.''))
   \<and> (CHR '' '' \<notin> set scheme \<and> CHR '' '' \<notin> set tok \<and> (rest = [] \<or> hd rest = CHR '' '') \<longrightarrow>
        authenticateUser l secret now (Some (scheme @ CHR '' '' # tok @ rest)) =
          (if tok = [] then Reject 401 (ErrorBody ''Unauthorized. No token provided.'')
           else (case jwt_verify l now tok secret of
                   Inl err \<Rightarrow> Reject 403 (ErrorBody ''Invalid or expired token'')
                 | Inr decoded \<Rightarrow> Next decoded)))"
proof (intro conjI impI)
  show "authenticateUser l secret now None =
     Reject 401 (ErrorBody ''Unauthorized. No token provided.'')"
    by (simp add: authenticateUser_def)
next
  assume "CHR '' '' \<notin> set h"
  then have "index (split_sp h) 1 = None"
    by (simp add: split_sp_no_space index_def)
  then show "authenticateUser l secret now (Some h) =
     Reject 401 (ErrorBody ''Unauthorized. No token provided.'')"
    by (simp add: authenticateUser_def)
next
  assume "CHR '' '' \<notin> set scheme \<and> CHR '' '' \<notin> set tok \<and> (rest = [] \<or> hd rest = CHR '' '')"
  then have "index (split_sp (scheme @ CHR '' '' # tok @ rest)) 1 = Some tok"
    using index_second_piece [of scheme tok rest] by blast
  then show "authenticateUser l secret now (Some (scheme @ CHR '' '' # tok @ rest)) =
          (if tok = [] then Reject 401 (ErrorBody ''Unauthorized. No token provided.'')
           else (case jwt_verify l now tok secret of
                   Inl err \<Rightarrow> Reject 403 (ErrorBody ''Invalid or expired token'')
                 | Inr decoded \<Rightarrow> Next decoded))"
    by (rule authenticateUser_token)
qed

text \<open>
  The theorem on a bare token, on a bearer header with a valid token, before and after
  its expiry, and on a bearer header with an empty token.
\<close>

theorem authenticateUser_states_witness:
  "CHR '' '' \<notin> set ''tok'' \<and> CHR '' '' \<notin> set ''Bearer''
   \<and> authenticateUser sample_libs ''s3cret'' 5000 (Some ''tok'') =
       Reject 401 (ErrorBody ''Unauthorized. No token provided.'')
   \<and> authenticateUser sample_libs ''s3cret'' 5000 (Some ''Bearer tok'') =
       Next (payload sample_token)
   \<and> authenticateUser sample_libs ''s3cret'' 3601000 (Some ''Bearer tok'') =
       Reject 403 (ErrorBody ''Invalid or expired token'')
   \<and> authenticateUser sample_libs ''s3cret'' 5000 (Some ''Bearer '') =
       Reject 401 (ErrorBody ''Unauthorized. No token provided.'')"
  using authenticateUser_states [of sample_libs "''s3cret''" 5000 "''tok''" "''Bearer''" "''tok''" "[]"]
    authenticateUser_states [of sample_libs "''s3cret''" 3601000 "''tok''" "''Bearer''" "''tok''" "[]"]
    authenticateUser_states [of sample_libs "''s3cret''" 5000 "''tok''" "''Bearer''" "[]" "[]"]
  by (simp add: jwt_verify_def sample_libs_def sample_token_def)

text \<open>
  C1 as stated counts a header with a malformed scheme as one with no token, to be
  rejected with 401. The header \<^verbatim>\<open>Basic abc\<close> is rejected with 403, and the header
  \<^verbatim>\<open>Basic tok\<close>, where \<^verbatim>\<open>tok\<close> is a valid token, is accepted.
\<close>

theorem authenticateUser_scheme_counterexample:
  "authenticateUser sample_libs ''s3cret'' 5000 (Some ''Basic abc'') =
     Reject 403 (ErrorBody ''Invalid or expired token'')
   \<and> authenticateUser sample_libs ''s3cret'' 5000 (Some ''Basic tok'') =
     Next (payload sample_token)"
  by (simp add: authenticateUser_def index_def jwt_verify_def sample_libs_def sample_token_def)

subsection \<open>Groups and messages\<close>

text \<open>
  C5. For an authenticated user, GET /api/groups answers 200 with the groups of the
  store whose members list has the email of the user's token, in store order: every such
  group is returned and no other group is.
\<close>

theorem get_groups_exact:
  "authenticateUser l secret now authorization = Next u \<Longrightarrow>
   get_groups l secret st now authorization =
     Respond 200 (GroupsBody (filter (\<lambda>g. email u \<in> set (members g)) (groups st)))
   \<and> set (filter (\<lambda>g. email u \<in> set (members g)) (groups st)) =
       {g \<in> set (groups st). email u \<in> set (members g)}"
  by (simp add: get_groups_def list_groups_def Group_find_def)

theorem get_groups_exact_witness:
  "get_groups sample_libs ''s3cret'' sample_store 5000 (Some ''Bearer tok'') =
     Respond 200 (GroupsBody [\<lparr>group_id = ''650000000000000000000003'', group_name = None,
                  members = [''b@x.com'', ''a@x.com''], messages = []\<rparr>])"
  using get_groups_exact [OF sample_auth, of sample_store]
  by (simp add: sample_store_def sample_token_def)

text \<open>
  C10. For an authenticated user, POST /api/groups answers 201 with a group whose members
  are exactly the email of the creator's token and whose messages are empty, whatever
  the name is (a body without a name included), and adds that group to the store.
\<close>

theorem post_groups_creates:
  "authenticateUser l secret now authorization = Next u \<Longrightarrow>
   post_groups l secret st now oid authorization name =
     (Respond 201 (GroupBody ''Group created successfully!''
        \<lparr>group_id = oid, group_name = name, members = [email u], messages = []\<rparr>),
      st\<lparr>groups := groups st @
        [\<lparr>group_id = oid, group_name = name, members = [email u], messages = []\<rparr>]\<rparr>)"
  by (simp add: post_groups_def create_group_def Group_insert_def Let_def)

theorem post_groups_creates_witness:
  "post_groups sample_libs ''s3cret'' sample_store 5000 ''650000000000000000000004''
     (Some ''Bearer tok'') (Some ''Hampi'') =
     (Respond 201 (GroupBody ''Group created successfully!''
        \<lparr>group_id = ''650000000000000000000004'', group_name = Some ''Hampi'',
         members = [''a@x.com''], messages = []\<rparr>),
      sample_store\<lparr>groups := groups sample_store @
        [\<lparr>group_id = ''650000000000000000000004'', group_name = Some ''Hampi'',
         members = [''a@x.com''], messages = []\<rparr>]\<rparr>)"
  using post_groups_creates [OF sample_auth, of sample_store]
  by (simp add: sample_token_def)

text \<open>
  C6. For an authenticated caller and an id that names a group of the store, POST
  /api/groups/:id/message answers 200 with the message made of the email of the caller's
  token, the text and the current time; the store is the old one with that message added
  as the last message of that group, and the message is emitted to the room of the
  group. Nothing asks whether the caller is a member of the group: in the run below the
  sender is not.
\<close>

theorem post_message_appends:
  assumes "authenticateUser l secret now authorization = Next u"
    and "Group_findById l st ident = Inr (Some g)"
  shows "\<exists>pre post.
     groups st = pre @ g # post \<and>
     post_groups_message l secret st now authorization ident txt =
       (Respond 200 (SentBody ''Message sent!''
          \<lparr>sender = email u, msg_text = txt, timestamp = now\<rparr>),
        st\<lparr>groups := pre @
          g\<lparr>messages := messages g @ [\<lparr>sender = email u, msg_text = txt, timestamp = now\<rparr>]\<rparr>
          # post\<rparr>,
        [\<lparr>room = group_id g, event = ''newMessage'',
          data = \<lparr>sender = email u, msg_text = txt, timestamp = now\<rparr>\<rparr>])"
proof -
  let ?m = "\<lparr>sender = email u, msg_text = txt, timestamp = now\<rparr>"
  let ?g' = "g\<lparr>messages := messages g @ [?m]\<rparr>"
  from assms(2) obtain oid where oid: "castObjectId l ident = Some oid"
    and f: "find (\<lambda>x. group_id x = oid) (groups st) = Some g"
    by (auto simp: Group_findById_def split: option.splits)
  from f have "group_id g = oid" by (auto simp: find_Some_iff)
  with f have "find (\<lambda>x. group_id x = group_id ?g') (groups st) = Some g" by simp
  from replace_doc_split [OF this] obtain pre post where
    "groups st = pre @ g # post" "replace_doc ?g' (groups st) = pre @ ?g' # post" by blast
  then show ?thesis using assms
    by (intro exI [of _ pre] exI [of _ post])
       (simp add: post_groups_message_def send_message_def Group_update_def Let_def)
qed

theorem post_message_appends_witness:
  "''a@x.com'' \<notin> set [''b@x.com''] \<and>
   post_groups_message sample_libs ''s3cret'' sample_store 5000 (Some ''Bearer tok'')
       ''650000000000000000000002'' (Some ''hi'') =
     (Respond 200 (SentBody ''Message sent!''
          \<lparr>sender = ''a@x.com'', msg_text = Some ''hi'', timestamp = 5000\<rparr>),
      sample_store\<lparr>groups :=
        [\<lparr>group_id = ''650000000000000000000002'', group_name = Some ''Goa'',
          members = [''b@x.com''],
          messages = [\<lparr>sender = ''a@x.com'', msg_text = Some ''hi'', timestamp = 5000\<rparr>]\<rparr>,
         \<lparr>group_id = ''650000000000000000000003'', group_name = None,
          members = [''b@x.com'', ''a@x.com''], messages = []\<rparr>]\<rparr>,
      [\<lparr>room = ''650000000000000000000002'', event = ''newMessage'',
        data = \<lparr>sender = ''a@x.com'', msg_text = Some ''hi'', timestamp = 5000\<rparr>\<rparr>])"
proof -
  from post_message_appends [OF sample_auth sample_find_group, of "Some ''hi''"]
  obtain pre post where
    g: "groups sample_store = pre @ \<lparr>group_id = ''650000000000000000000002'',
          group_name = Some ''Goa'', members = [''b@x.com''], messages = []\<rparr> # post"
    and r: "post_groups_message sample_libs ''s3cret'' sample_store 5000 (Some ''Bearer tok'')
       ''650000000000000000000002'' (Some ''hi'') =
       (Respond 200 (SentBody ''Message sent!''
          \<lparr>sender = email (payload sample_token), msg_text = Some ''hi'', timestamp = 5000\<rparr>),
        sample_store\<lparr>groups := pre @
          \<lparr>group_id = ''650000000000000000000002'', group_name = Some ''Goa'',
            members = [''b@x.com''], messages = []\<rparr>
          \<lparr>messages := messages \<lparr>group_id = ''650000000000000000000002'',
              group_name = Some ''Goa'', members = [''b@x.com''], messages = []\<rparr>
             @ [\<lparr>sender = email (payload sample_token), msg_text = Some ''hi'', timestamp = 5000\<rparr>]\<rparr>
          # post\<rparr>,
        [\<lparr>room = group_id \<lparr>group_id = ''650000000000000000000002'',
              group_name = Some ''Goa'', members = [''b@x.com''], messages = []\<rparr>,
          event = ''newMessage'',
          data = \<lparr>sender = email (payload sample_token), msg_text = Some ''hi'', timestamp = 5000\<rparr>\<rparr>])"
    by blast
  from g have "pre = []"
    by (cases pre) (auto simp: sample_store_def Cons_eq_append_conv)
  with g have "post = [\<lparr>group_id = ''650000000000000000000003'', group_name = None,
          members = [''b@x.com'', ''a@x.com''], messages = []\<rparr>]"
    by (simp add: sample_store_def)
  with r \<open>pre = []\<close> show ?thesis by (simp add: sample_token_def)
qed

text \<open>
  C7 (as amended). For an authenticated caller and an id that names no group of the
  store, the handler emits nothing and leaves the store as it is; it answers 404 when the
  id casts to an ObjectId, and 500 when it does not.
\<close>

theorem post_message_no_group:
  assumes "authenticateUser l secret now authorization = Next u"
    and "\<forall>g \<in> set (groups st). castObjectId l ident \<noteq> Some (group_id g)"
  shows "post_groups_message l secret st now authorization ident txt =
       (if castObjectId l ident = None
        then (Respond 500 (ErrorBody ''Error sending message''), st, [])
        else (Respond 404 (ErrorBody ''Group not found''), st, []))"
proof (cases "castObjectId l ident")
  case None
  with assms(1) show ?thesis
    by (simp add: post_groups_message_def send_message_def Group_findById_def)
next
  case (Some oid)
  with assms(2) have "find (\<lambda>x. group_id x = oid) (groups st) = None"
    by (auto simp: find_None_iff)
  with assms(1) Some show ?thesis
    by (simp add: post_groups_message_def send_message_def Group_findById_def)
qed

theorem post_message_no_group_witness:
  "post_groups_message sample_libs ''s3cret'' sample_store 5000 (Some ''Bearer tok'')
       ''650000000000000000000009'' (Some ''hi'') =
     (Respond 404 (ErrorBody ''Group not found''), sample_store, [])"
  using post_message_no_group [OF sample_auth, of sample_store "''650000000000000000000009''"]
  by (simp add: sample_libs_def sample_store_def)

text \<open>
  C7 as stated has 404 for every id that names no group. The id \<^verbatim>\<open>nosuchgroup\<close>
  names none, and is no ObjectId: the CastError of \<^verbatim>\<open>findById\<close> is caught and the answer
  is 500.
\<close>

theorem post_message_bad_id_counterexample:
  "post_groups_message sample_libs ''s3cret'' sample_store 5000 (Some ''Bearer tok'')
       ''nosuchgroup'' (Some ''hi'') =
     (Respond 500 (ErrorBody ''Error sending message''), sample_store, [])"
proof -
  have "castObjectId sample_libs ''nosuchgroup'' = None"
    by (simp add: sample_libs_def)
  then show ?thesis
    by (simp add: post_groups_message_def sample_auth send_message_def Group_findById_def)
qed

subsection \<open>Registration, login and tokens\<close>

text \<open>
  C4. A registration with a non-empty name, an email whose lowercase form is not empty
  and is the email of no user, and a password (whose digest is not empty) is answered
  201. After a registration answered 201, in that store or any later one (the users
  collection only grows), every registration whose email is equal to the first one after
  lowercasing is answered 400 "Email already in use" and leaves the store as it is,
  whatever its other fields are: there is no second record. The lowercase mapping is
  that of the runtime, of which nothing is assumed.
\<close>

theorem register_twice:
  "(User_findOne st (toLowerCase l e) = None \<and> n \<noteq> [] \<and> toLowerCase l e \<noteq> []
      \<and> hashpw l salt 10 p \<noteq> [] \<longrightarrow>
      fst (register l st salt oid (Some n) (Some e) (Some p)) =
        Respond 201 (MessageBody ''User registered successfully!''))
   \<and> (register l st salt oid name (Some e) pw = (Respond 201 b, st')
        \<and> users st'' = users st' @ later \<and> toLowerCase l e' = toLowerCase l e \<longrightarrow>
      length (users st') = Suc (length (users st))
      \<and> register l st'' salt' oid' name' (Some e') pw' =
          (Respond 400 (ErrorBody ''Email already in use''), st''))"
proof (intro conjI impI)
  assume "User_findOne st (toLowerCase l e) = None \<and> n \<noteq> [] \<and> toLowerCase l e \<noteq> []
      \<and> hashpw l salt 10 p \<noteq> []"
  then show "fst (register l st salt oid (Some n) (Some e) (Some p)) =
        Respond 201 (MessageBody ''User registered successfully!'')"
    by (simp add: register_ok)
next
  assume a: "register l st salt oid name (Some e) pw = (Respond 201 b, st')
        \<and> users st'' = users st' @ later \<and> toLowerCase l e' = toLowerCase l e"
  with register_cases [of l st salt oid name "Some e" pw "Respond 201 b" st']
  show "length (users st') = Suc (length (users st))" by auto
next
  assume a: "register l st salt oid name (Some e) pw = (Respond 201 b, st')
        \<and> users st'' = users st' @ later \<and> toLowerCase l e' = toLowerCase l e"
  then obtain u where "User_findOne st'' (toLowerCase l e') = Some u"
    using registered_found_later [of l st salt oid name e pw b st' st'' later e'] by blast
  then show "register l st'' salt' oid' name' (Some e') pw' =
          (Respond 400 (ErrorBody ''Email already in use''), st'')"
    by (rule register_duplicate)
qed

text \<open>
  The example of the specification: \<^verbatim>\<open>A@x.com\<close> is registered in the empty store, and
  \<^verbatim>\<open>a@X.COM\<close> is refused in the store that results.
\<close>

theorem register_twice_witness:
  "fst (register sample_libs empty_store ''salt'' ''650000000000000000000001''
     (Some ''A'') (Some ''A@x.com'') (Some ''p'')) =
     Respond 201 (MessageBody ''User registered successfully!'')
   \<and> register sample_libs sample_store ''pepr'' ''650000000000000000000007''
       (Some ''A2'') (Some ''a@X.COM'') (Some ''other'') =
     (Respond 400 (ErrorBody ''Email already in use''), sample_store)"
proof -
  let ?st = "\<lparr>users = [\<lparr>user_id = ''650000000000000000000001'', user_name = ''A'',
                 user_email = ''a@x.com'', user_password = ''$2a$saltp''\<rparr>], groups = []\<rparr>"
  have fresh: "User_findOne empty_store (toLowerCase sample_libs ''A@x.com'') = None"
    by (simp add: User_findOne_def empty_store_def)
  have digest: "hashpw sample_libs ''salt'' 10 ''p'' \<noteq> []"
    by (simp add: sample_libs_def)
  have nonempty: "toLowerCase sample_libs ''A@x.com'' \<noteq> []"
    by (simp add: sample_lower_A)
  have later: "users sample_store = users ?st @ []"
    by (simp add: sample_store_def)
  have same: "toLowerCase sample_libs ''a@X.COM'' = toLowerCase sample_libs ''A@x.com''"
    by (simp add: sample_lower_A sample_lower_a)
  note inst = register_twice [where st = empty_store and e = "''A@x.com''" and n = "''A''"
      and l = sample_libs and salt = "''salt''" and p = "''p''"
      and oid = "''650000000000000000000001''" and name = "Some ''A''" and pw = "Some ''p''"
      and b = "MessageBody ''User registered successfully!''" and st' = ?st
      and st'' = sample_store and later = "[]" and e' = "''a@X.COM''" and salt' = "''pepr''"
      and oid' = "''650000000000000000000007''" and name' = "Some ''A2''"
      and pw' = "Some ''other''"]
  from inst fresh digest nonempty sample_register later same show ?thesis by blast
qed




text \<open>
  C3. A token that a login returns carries the time of issuance \<open>iat\<close>, in seconds, and
  the expiry \<open>exp = iat + 3600\<close>. At every clock value before \<open>exp\<close> (the clock is in
  milliseconds) verification succeeds and the middleware calls the handler; at \<open>exp\<close> and
  at every clock value after it verification fails as expired and the middleware rejects
  with 403. The expiry is fixed at issuance: the outcome is a function of the clock and
  the token alone, and no verification moves it.
\<close>

theorem token_expires_after_one_hour:
  assumes "login l secret st now em pw = Respond status (LoginBody m tok)"
    and "\<forall>t. encode l t = tok \<longrightarrow> codec_ok l t"
  shows "\<exists>c. iat c = now div 1000 \<and> exp c = iat c + 3600 \<and>
     (\<forall>now'.
        (now' < exp c * 1000 \<longrightarrow>
           jwt_verify l now' tok secret = Inr c \<and>
           authenticateUser l secret now' (Some (''Bearer '' @ tok)) = Next c)
      \<and> (exp c * 1000 \<le> now' \<longrightarrow>
           jwt_verify l now' tok secret = Inl TokenExpiredError \<and>
           authenticateUser l secret now' (Some (''Bearer '' @ tok)) =
             Reject 403 (ErrorBody ''Invalid or expired token'')))"
proof -
  from login_issues [OF assms(1)] obtain u :: user where
    t: "tok = encode l (new_token now (user_id u) (user_email u) secret 3600)" by blast
  let ?t = "new_token now (user_id u) (user_email u) secret 3600"
  let ?c = "payload ?t"
  from t assms(2) have ok: "codec_ok l ?t" by simp
  with t have tok: "tok \<noteq> []" "CHR '' '' \<notin> set tok" and dec: "decode l tok = Some ?t"
    by (simp_all add: codec_ok_def)
  have e: "exp ?c = now div 1000 + 3600" "iat ?c = now div 1000" by (simp_all add: new_token_def)
  have "\<forall>now'.
        (now' < exp ?c * 1000 \<longrightarrow>
           jwt_verify l now' tok secret = Inr ?c \<and>
           authenticateUser l secret now' (Some (''Bearer '' @ tok)) = Next ?c)
      \<and> (exp ?c * 1000 \<le> now' \<longrightarrow>
           jwt_verify l now' tok secret = Inl TokenExpiredError \<and>
           authenticateUser l secret now' (Some (''Bearer '' @ tok)) =
             Reject 403 (ErrorBody ''Invalid or expired token''))"
  proof (intro allI conjI impI)
    fix now' assume "now' < exp ?c * 1000"
    then have lt: "now' div 1000 < now div 1000 + 3600" using e(1) by simp
    then show v: "jwt_verify l now' tok secret = Inr ?c"
      using verify_new_token [OF dec, of now'] by simp
    show "authenticateUser l secret now' (Some (''Bearer '' @ tok)) = Next ?c"
      using bearer_header [OF tok, of l secret now'] v by simp
  next
    fix now' assume "exp ?c * 1000 \<le> now'"
    then have ge: "\<not> now' div 1000 < now div 1000 + 3600" using e(1) by simp
    then show v: "jwt_verify l now' tok secret = Inl TokenExpiredError"
      using verify_new_token [OF dec, of now'] by simp
    show "authenticateUser l secret now' (Some (''Bearer '' @ tok)) =
             Reject 403 (ErrorBody ''Invalid or expired token'')"
      using bearer_header [OF tok, of l secret now'] v by simp
  qed
  with e show ?thesis by (intro exI [of _ ?c]) simp
qed

text \<open>
  The token issued at 1.5 s: accepted at 3600.999 s, rejected at 3601 s.
\<close>

theorem token_expires_after_one_hour_witness:
  "authenticateUser sample_libs ''s3cret'' 3600999 (Some ''Bearer tok'') =
     Next (payload sample_token)
   \<and> authenticateUser sample_libs ''s3cret'' 3601000 (Some ''Bearer tok'') =
     Reject 403 (ErrorBody ''Invalid or expired token'')"
proof -
  have codec: "\<forall>t. encode sample_libs t = ''tok'' \<longrightarrow> codec_ok sample_libs t"
    by (auto simp: sample_libs_def codec_ok_def split: if_splits)
  from token_expires_after_one_hour [OF sample_login codec]
  obtain c where i: "iat c = 1500 div 1000" and e: "exp c = iat c + 3600"
    and v: "\<forall>now'.
        (now' < exp c * 1000 \<longrightarrow>
           jwt_verify sample_libs now' ''tok'' ''s3cret'' = Inr c \<and>
           authenticateUser sample_libs ''s3cret'' now' (Some (''Bearer '' @ ''tok'')) = Next c)
      \<and> (exp c * 1000 \<le> now' \<longrightarrow>
           jwt_verify sample_libs now' ''tok'' ''s3cret'' = Inl TokenExpiredError \<and>
           authenticateUser sample_libs ''s3cret'' now' (Some (''Bearer '' @ ''tok'')) =
             Reject 403 (ErrorBody ''Invalid or expired token''))"
    by blast
  from i e have x: "exp c * 1000 = 3601000" by simp
  from v x have "jwt_verify sample_libs 0 ''tok'' ''s3cret'' = Inr c" by simp
  moreover have "jwt_verify sample_libs 0 ''tok'' ''s3cret'' = Inr (payload sample_token)"
    by (simp add: jwt_verify_def sample_libs_def sample_token_def)
  ultimately have c: "c = payload sample_token" by simp
  from v x have "authenticateUser sample_libs ''s3cret'' 3600999 (Some (''Bearer '' @ ''tok'')) = Next c"
    by simp
  moreover from v x have
    "authenticateUser sample_libs ''s3cret'' 3601000 (Some (''Bearer '' @ ''tok'')) =
       Reject 403 (ErrorBody ''Invalid or expired token'')"
    by simp
  ultimately show ?thesis using c by simp
qed

text \<open>
  C8. A registration leaves the store as it is, or adds one user whose password field
  is the digest \<^verbatim>\<open>bcrypt.hash(password, 10)\<close> resolves to: the password itself is written
  nowhere. An authenticated GET /api/auth/user whose token names a stored user is
  answered 200 with the id, the name and the email of that user. And whenever the route
  answers with a user at all, the status is 200 and the body is the id, the name and the
  email of a stored user, with no field \<^verbatim>\<open>password\<close>.
\<close>

theorem password_not_stored_nor_returned:
  "(register l st salt oid name em pw = (r, st') \<longrightarrow>
      st' = st \<or>
      (\<exists>n e p. name = Some n \<and> em = Some e \<and> pw = Some p \<and>
         st' = st\<lparr>users := users st @
             [\<lparr>user_id = oid, user_name = n, user_email = toLowerCase l e,
               user_password = hashpw l salt 10 p\<rparr>]\<rparr>))
   \<and> (authenticateUser l secret now authorization = Next c
        \<and> castObjectId l (userId c) = Some i
        \<and> find (\<lambda>u. user_id u = i) (users st) = Some v \<longrightarrow>
        get_auth_user l secret st now authorization =
          Respond 200 (UserBody
            [(''_id'', user_id v), (''name'', user_name v), (''email'', user_email v)]))
   \<and> (get_auth_user l secret st now authorization = Respond status (UserBody doc) \<longrightarrow>
        status = 200 \<and> ''password'' \<notin> fst ` set doc \<and>
        (\<exists>u \<in> set (users st).
           doc = [(''_id'', user_id u), (''name'', user_name u), (''email'', user_email u)]))"
proof -
  have stored: "st' = st \<or>
      (\<exists>n e p. name = Some n \<and> em = Some e \<and> pw = Some p \<and>
         st' = st\<lparr>users := users st @
             [\<lparr>user_id = oid, user_name = n, user_email = toLowerCase l e,
               user_password = hashpw l salt 10 p\<rparr>]\<rparr>)"
    if "register l st salt oid name em pw = (r, st')"
    using register_cases [OF that] by blast
  have answered: "get_auth_user l secret st now authorization =
          Respond 200 (UserBody
            [(''_id'', user_id v), (''name'', user_name v), (''email'', user_email v)])"
    if "authenticateUser l secret now authorization = Next c"
      and "castObjectId l (userId c) = Some i"
      and "find (\<lambda>u. user_id u = i) (users st) = Some v"
    using that
    by (simp add: get_auth_user_def auth_user_def User_findById_def select_minus_def toJSON_def)
  have returned: "status = 200 \<and> ''password'' \<notin> fst ` set doc \<and>
        (\<exists>u \<in> set (users st).
           doc = [(''_id'', user_id u), (''name'', user_name u), (''email'', user_email u)])"
    if a: "get_auth_user l secret st now authorization = Respond status (UserBody doc)"
  proof -
    from a obtain c where "auth_user l st c = Respond status (UserBody doc)"
      by (auto simp: get_auth_user_def authenticateUser_def Let_def
          split: middleware.splits option.splits if_splits sum.splits)
    then obtain u oid' where s: "status = 200"
      and f: "find (\<lambda>u. user_id u = oid') (users st) = Some u"
      and d: "doc = select_minus ''password'' (toJSON u)"
      by (auto simp: auth_user_def User_findById_def split: sum.splits option.splits)
    from f have "u \<in> set (users st)" by (auto simp: find_Some_iff)
    moreover from d have
      "doc = [(''_id'', user_id u), (''name'', user_name u), (''email'', user_email u)]"
      by (simp add: select_minus_def toJSON_def)
    ultimately show ?thesis using s by auto
  qed
  show ?thesis
  proof (intro conjI)
    show "register l st salt oid name em pw = (r, st') \<longrightarrow>
      st' = st \<or>
      (\<exists>n e p. name = Some n \<and> em = Some e \<and> pw = Some p \<and>
         st' = st\<lparr>users := users st @
             [\<lparr>user_id = oid, user_name = n, user_email = toLowerCase l e,
               user_password = hashpw l salt 10 p\<rparr>]\<rparr>)"
      using stored by (rule impI)
    show "authenticateUser l secret now authorization = Next c
        \<and> castObjectId l (userId c) = Some i
        \<and> find (\<lambda>u. user_id u = i) (users st) = Some v \<longrightarrow>
        get_auth_user l secret st now authorization =
          Respond 200 (UserBody
            [(''_id'', user_id v), (''name'', user_name v), (''email'', user_email v)])"
      using answered by (intro impI) (elim conjE)
    show "get_auth_user l secret st now authorization = Respond status (UserBody doc) \<longrightarrow>
        status = 200 \<and> ''password'' \<notin> fst ` set doc \<and>
        (\<exists>u \<in> set (users st).
           doc = [(''_id'', user_id u), (''name'', user_name u), (''email'', user_email u)])"
      using returned by (rule impI)
  qed
qed

text \<open>
  The registration of \<^verbatim>\<open>A@x.com\<close> stores the digest, and the request of that user for
  its record is answered with the id, the name and the email.
\<close>

theorem password_not_stored_nor_returned_witness:
  "snd (register sample_libs empty_store ''salt'' ''650000000000000000000001''
     (Some ''A'') (Some ''A@x.com'') (Some ''p'')) =
     empty_store\<lparr>users := users empty_store @
        [\<lparr>user_id = ''650000000000000000000001'', user_name = ''A'', user_email = ''a@x.com'',
          user_password = hashpw sample_libs ''salt'' 10 ''p''\<rparr>]\<rparr>
   \<and> get_auth_user sample_libs ''s3cret'' sample_store 5000 (Some ''Bearer tok'') =
       Respond 200 (UserBody [(''_id'', ''650000000000000000000001''), (''name'', ''A''),
                              (''email'', ''a@x.com'')])
   \<and> ''password'' \<notin> fst ` set [(''_id'', ''650000000000000000000001''), (''name'', ''A''),
                              (''email'', ''a@x.com'')]"
proof -
  let ?st = "\<lparr>users = [\<lparr>user_id = ''650000000000000000000001'', user_name = ''A'',
                 user_email = ''a@x.com'', user_password = ''$2a$saltp''\<rparr>], groups = []\<rparr>"
  let ?u = "\<lparr>user_id = ''650000000000000000000001'', user_name = ''A'',
                 user_email = ''a@x.com'', user_password = ''$2a$saltp''\<rparr>"
  let ?doc = "[(''_id'', ''650000000000000000000001''), (''name'', ''A''), (''email'', ''a@x.com'')]"
  note reg = password_not_stored_nor_returned [where l = sample_libs and st = empty_store
      and salt = "''salt''" and oid = "''650000000000000000000001''" and name = "Some ''A''"
      and em = "Some ''A@x.com''" and pw = "Some ''p''"
      and r = "Respond 201 (MessageBody ''User registered successfully!'')" and st' = ?st,
      THEN conjunct1, rule_format, OF sample_register]
  have changed: "?st \<noteq> empty_store" by (simp add: empty_store_def)
  with reg have "?st = empty_store\<lparr>users := users empty_store @
        [\<lparr>user_id = ''650000000000000000000001'', user_name = ''A'',
          user_email = toLowerCase sample_libs ''A@x.com'',
          user_password = hashpw sample_libs ''salt'' 10 ''p''\<rparr>]\<rparr>"
    by auto
  then have first: "snd (register sample_libs empty_store ''salt'' ''650000000000000000000001''
     (Some ''A'') (Some ''A@x.com'') (Some ''p'')) =
     empty_store\<lparr>users := users empty_store @
        [\<lparr>user_id = ''650000000000000000000001'', user_name = ''A'', user_email = ''a@x.com'',
          user_password = hashpw sample_libs ''salt'' 10 ''p''\<rparr>]\<rparr>"
    by (simp add: sample_register sample_lower_A)
  have cast: "castObjectId sample_libs (userId (payload sample_token)) =
      Some ''650000000000000000000001''"
    by (simp add: sample_libs_def sample_token_def)
  have found: "find (\<lambda>u. user_id u = ''650000000000000000000001'') (users sample_store) = Some ?u"
    by (simp add: sample_store_def)
  note get = password_not_stored_nor_returned [where l = sample_libs and st = sample_store
      and secret = "''s3cret''" and now = 5000 and authorization = "Some ''Bearer tok''"
      and c = "payload sample_token" and i = "''650000000000000000000001''" and v = ?u
      and status = 200 and doc = ?doc]
  from get [THEN conjunct2, THEN conjunct1] sample_auth cast found
  have second: "get_auth_user sample_libs ''s3cret'' sample_store 5000 (Some ''Bearer tok'') =
       Respond 200 (UserBody ?doc)"
    by simp
  from get [THEN conjunct2, THEN conjunct2] second
  have third: "''password'' \<notin> fst ` set ?doc"
    by (elim impE conjE) assumption
  from first second third show ?thesis by (intro conjI)
qed

text \<open>
  C9 (as amended). A body with a missing field is not answered 400. A registration
  without an email is answered 500; so is one without a password, and one without a
  name, when no user has the email; the store is left as it is. A login without a
  password, for the email of a registered user, is answered 500.
\<close>

theorem missing_field_500:
  "register l st salt oid name None pw = (Respond 500 (ErrorBody ''Error registering user''), st)
   \<and> (User_findOne st (toLowerCase l e) = None \<longrightarrow>
        register l st salt oid name (Some e) None =
          (Respond 500 (ErrorBody ''Error registering user''), st))
   \<and> (User_findOne st (toLowerCase l e) = None \<longrightarrow>
        register l st salt oid None (Some e) pw =
          (Respond 500 (ErrorBody ''Error registering user''), st))
   \<and> (User_findOne st (toLowerCase l e) \<noteq> None \<longrightarrow>
        login l secret st now (Some e) None = Respond 500 (ErrorBody ''Server error during login''))"
  by (auto simp: register_def register_try_def bcrypt_hash_def User_save_def Let_def
      login_def login_try_def bcrypt_compare_def split: option.splits)

theorem missing_field_500_witness:
  "register sample_libs sample_store ''salt'' ''650000000000000000000007''
       (Some ''B'') None (Some ''p'') =
     (Respond 500 (ErrorBody ''Error registering user''), sample_store)
   \<and> register sample_libs sample_store ''salt'' ''650000000000000000000007''
       (Some ''B'') (Some ''B@x.com'') None =
     (Respond 500 (ErrorBody ''Error registering user''), sample_store)
   \<and> register sample_libs sample_store ''salt'' ''650000000000000000000007''
       None (Some ''B@x.com'') (Some ''p'') =
     (Respond 500 (ErrorBody ''Error registering user''), sample_store)
   \<and> login sample_libs ''s3cret'' sample_store 1500 (Some ''A@x.com'') None =
     Respond 500 (ErrorBody ''Server error during login'')"
proof -
  have fresh: "User_findOne sample_store (toLowerCase sample_libs ''B@x.com'') = None"
    by (simp add: sample_lower_B User_findOne_def sample_store_def)
  have known: "User_findOne sample_store (toLowerCase sample_libs ''A@x.com'') \<noteq> None"
    by (simp add: sample_lower_A User_findOne_def sample_store_def)
  note fresh_inst = missing_field_500 [where l = sample_libs and st = sample_store
      and salt = "''salt''" and oid = "''650000000000000000000007''" and e = "''B@x.com''"]
  note known_inst = missing_field_500 [where l = sample_libs and st = sample_store
      and e = "''A@x.com''" and secret = "''s3cret''" and now = 1500]
  from fresh_inst [where name = "Some ''B''" and pw = "Some ''p''"] fresh known_inst known
  show ?thesis by blast
qed

text \<open>
  C9 as stated has 400 for a registration without a password. In the empty store it is
  answered 500: \<^verbatim>\<open>bcrypt.hash\<close> rejects the missing password and the catch block
  answers.
\<close>

theorem missing_password_counterexample:
  "register sample_libs empty_store ''salt'' ''650000000000000000000001''
       (Some ''A'') (Some ''A@x.com'') None =
     (Respond 500 (ErrorBody ''Error registering user''), empty_store)"
  by (simp add: register_def register_try_def sample_lower_A User_findOne_def empty_store_def bcrypt_hash_def)

end
